theory Spec2Isabelle
  imports Main
begin

section \<open>JSON values and the Python operations the client applies to them\<close>

text \<open>
  The client passes around whatever \<open>response.json()\<close> produced: any JSON value. A
  dictionary is an association list in insertion order with distinct keys. A float is
  kept as mantissa and binary exponent (only its being zero matters to the client).
\<close>

datatype json =
    JNull
  | JBool bool
  | JInt int
  | JFloat int int
  | JStr string
  | JArr "json list"
  | JObj "(string \<times> json) list"

type_synonym dict = "(string \<times> json) list"

text \<open>The exceptions the client's own expressions can raise on a JSON value.\<close>

datatype fault = AttributeError | TypeError | KeyError | IndexError

text \<open>The text produced by \<open>json.dumps\<close>; \<open>json.loads\<close> reads the value back.\<close>

datatype json_text = JsonText json

definition json_dumps :: "json \<Rightarrow> json_text" where
  "json_dumps v = JsonText v"

fun json_loads :: "json_text \<Rightarrow> json" where
  "json_loads (JsonText v) = v"

definition fbind :: "fault + 'a \<Rightarrow> ('a \<Rightarrow> fault + 'b) \<Rightarrow> fault + 'b" where
  "fbind m f = (case m of Inl e \<Rightarrow> Inl e | Inr x \<Rightarrow> f x)"

text \<open>Python truthiness (\<open>not x\<close>, \<open>if x\<close>).\<close>

fun truthy :: "json \<Rightarrow> bool" where
  "truthy JNull = False"
| "truthy (JBool b) = b"
| "truthy (JInt i) = (i \<noteq> 0)"
| "truthy (JFloat m e) = (m \<noteq> 0)"
| "truthy (JStr s) = (s \<noteq> [])"
| "truthy (JArr xs) = (xs \<noteq> [])"
| "truthy (JObj kvs) = (kvs \<noteq> [])"

text \<open>\<open>x.get(k, d)\<close>: only a dictionary has \<open>get\<close>.\<close>

fun py_get :: "json \<Rightarrow> string \<Rightarrow> json \<Rightarrow> fault + json" where
  "py_get (JObj kvs) k d = Inr (case map_of kvs k of None \<Rightarrow> d | Some v \<Rightarrow> v)"
| "py_get _ k d = Inl AttributeError"

text \<open>\<open>d[k] = v\<close> on a dictionary: an existing key keeps its place.\<close>

fun dict_set :: "dict \<Rightarrow> string \<Rightarrow> json \<Rightarrow> dict" where
  "dict_set [] k v = [(k, v)]"
| "dict_set ((k', v') # kvs) k v =
     (if k' = k then (k, v) # kvs else (k', v') # dict_set kvs k v)"

fun contains_str :: "string \<Rightarrow> string \<Rightarrow> bool" where
  "contains_str k [] = (k = [])"
| "contains_str k (c # cs) = (take (length k) (c # cs) = k \<or> contains_str k cs)"

text \<open>
  \<open>k in x\<close> for a string \<open>k\<close>: key membership in a dictionary, element membership in a
  list, substring test in a string, TypeError on anything else.
\<close>

fun py_contains :: "string \<Rightarrow> json \<Rightarrow> fault + bool" where
  "py_contains k (JObj kvs) = Inr (k \<in> set (map fst kvs))"
| "py_contains k (JArr xs) = Inr (JStr k \<in> set xs)"
| "py_contains k (JStr s) = Inr (contains_str k s)"
| "py_contains k _ = Inl TypeError"

text \<open>\<open>for x in v\<close>: list elements, dictionary keys, the characters of a string.\<close>

fun py_iter :: "json \<Rightarrow> fault + json list" where
  "py_iter (JArr xs) = Inr xs"
| "py_iter (JObj kvs) = Inr (map (\<lambda>kv. JStr (fst kv)) kvs)"
| "py_iter (JStr s) = Inr (map (\<lambda>c. JStr [c]) s)"
| "py_iter _ = Inl TypeError"

text \<open>\<open>v[0]\<close>.\<close>

fun py_index0 :: "json \<Rightarrow> fault + json" where
  "py_index0 (JArr []) = Inl IndexError"
| "py_index0 (JArr (x # xs)) = Inr x"
| "py_index0 (JStr []) = Inl IndexError"
| "py_index0 (JStr (c # cs)) = Inr (JStr [c])"
| "py_index0 (JObj kvs) = Inl KeyError"
| "py_index0 _ = Inl TypeError"

text \<open>\<open>v.lower()\<close>, with the library's \<open>str.lower\<close> as a parameter.\<close>

fun py_lower :: "(string \<Rightarrow> string) \<Rightarrow> json \<Rightarrow> fault + string" where
  "py_lower lower (JStr s) = Inr (lower s)"
| "py_lower lower _ = Inl AttributeError"

text \<open>
  A value inside an f-string: a string is inserted as it is, anything else through
  the interpreter's \<open>str\<close>, a parameter here.
\<close>

fun py_format :: "(json \<Rightarrow> string) \<Rightarrow> json \<Rightarrow> string" where
  "py_format repr (JStr s) = s"
| "py_format repr v = repr v"

fun map_fault :: "('a \<Rightarrow> fault + 'b) \<Rightarrow> 'a list \<Rightarrow> fault + 'b list" where
  "map_fault f [] = Inr []"
| "map_fault f (x # xs) =
     (case f x of
        Inl e \<Rightarrow> Inl e
      | Inr y \<Rightarrow> (case map_fault f xs of Inl e \<Rightarrow> Inl e | Inr ys \<Rightarrow> Inr (y # ys)))"

text \<open>Decimal text of an integer, as an f-string prints it.\<close>

definition digit_char :: "nat \<Rightarrow> char" where
  "digit_char d = ''0123456789'' ! (d mod 10)"

function show_nat :: "nat \<Rightarrow> string" where
  "show_nat n = (if n < 10 then [digit_char n] else show_nat (n div 10) @ [digit_char n])"
  by pat_completeness auto
termination
  by (relation "measure id") auto

declare show_nat.simps [simp del]

definition show_int :: "int \<Rightarrow> string" where
  "show_int i = (if i < 0 then CHR ''-'' # show_nat (nat (- i)) else show_nat (nat i))"

section \<open>The remote service, the call log and the heap\<close>

record request =
  req_method :: string
  req_url :: string
  req_params :: dict
  req_json :: "json option"
  req_headers :: "(string \<times> string) list"

text \<open>
  What \<open>requests.request\<close> can do: answer with a status, a body text and the body
  parsed as JSON (or the decoder's complaint when it is not JSON), or fail in
  transport with a detail text.
\<close>

datatype http_outcome =
    Response nat string "string + json"
  | TransportFailure string

text \<open>
  The program state: the remote world, the log of outbound calls, and the heap of
  dictionaries that are passed by reference (a reference is an index into it).
\<close>

record 'w state =
  world :: 'w
  calls :: "request list"
  heap :: "dict list"

type_synonym 'w net = "'w \<Rightarrow> request \<Rightarrow> http_outcome \<times> 'w"

definition heap_get :: "dict list \<Rightarrow> nat \<Rightarrow> dict" where
  "heap_get h r = (if r < length h then h ! r else [])"

definition alloc :: "dict \<Rightarrow> 'w state \<Rightarrow> nat \<times> 'w state" where
  "alloc d s = (length (heap s), s\<lparr>heap := heap s @ [d]\<rparr>)"

section \<open>Configuration and the gateway\<close>

definition CAL_API_BASE_URL :: string where
  "CAL_API_BASE_URL = ''https://api.cal.com/v1/''"

definition KEY_NOT_SET :: string where
  "KEY_NOT_SET = ''Cal.com API Key is not set. Please set it in the Streamlit UI.''"

definition KEY_NOT_SET_ENV :: string where
  "KEY_NOT_SET_ENV =
     ''Cal.com API Key is not set in environment variables. Please set CAL_API_KEY in your .env file.''"

text \<open>\<open>not api_key\<close>: the environment variable is unset or empty.\<close>

fun key_missing :: "string option \<Rightarrow> bool" where
  "key_missing None = True"
| "key_missing (Some k) = (k = [])"

fun key_value :: "string option \<Rightarrow> json" where
  "key_value None = JNull"
| "key_value (Some k) = JStr k"

text \<open>
  \<open>_make_cal_request\<close>. The query parameters are a reference into the heap (or
  \<open>None\<close>, then a fresh dictionary is made); the key is stored into that dictionary.
  A body that is not JSON raises the library's decode error, a \<open>RequestException\<close>.
\<close>

definition make_cal_request ::
  "'w net \<Rightarrow> string option \<Rightarrow> string \<Rightarrow> string \<Rightarrow> nat option \<Rightarrow> json option \<Rightarrow>
   'w state \<Rightarrow> json \<times> 'w state" where
  "make_cal_request net key endpoint method params json_data s =
     (if key_missing key then (JObj [(''error'', JStr KEY_NOT_SET)], s)
      else
        let (r, s1) = (case params of None \<Rightarrow> alloc [] s | Some r \<Rightarrow> (r, s));
            s2 = s1\<lparr>heap := (heap s1)[r := dict_set (heap_get (heap s1) r) ''apiKey'' (key_value key)]\<rparr>;
            req = \<lparr>req_method = method, req_url = CAL_API_BASE_URL @ endpoint,
                   req_params = heap_get (heap s2) r, req_json = json_data,
                   req_headers = [(''Content-Type'', ''application/json'')]\<rparr>;
            (out, w') = net (world s2) req;
            s3 = s2\<lparr>world := w', calls := calls s2 @ [req]\<rparr>
        in (case out of
              TransportFailure detail \<Rightarrow> (JObj [(''error'', JStr (''Request error: '' @ detail))], s3)
            | Response status body parsed \<Rightarrow>
                if 400 \<le> status \<and> status < 600
                then (JObj [(''error'', JStr (''HTTP error: '' @ show_nat status @ '' - '' @ body))], s3)
                else if status = 204
                then (JObj [(''message'', JStr ''Operation successful, no content returned.'')], s3)
                else (case parsed of
                        Inr v \<Rightarrow> (v, s3)
                      | Inl detail \<Rightarrow> (JObj [(''error'', JStr (''Request error: '' @ detail))], s3))))"

section \<open>The seven operations\<close>

type_synonym 'w operation = "'w state \<Rightarrow> (fault + json_text) \<times> 'w state"

definition summarize_event_type :: "json \<Rightarrow> fault + json" where
  "summarize_event_type et =
     fbind (py_get et ''id'' JNull) (\<lambda>i.
     fbind (py_get et ''title'' JNull) (\<lambda>t.
     fbind (py_get et ''slug'' JNull) (\<lambda>sl.
       Inr (JObj [(''id'', i), (''title'', t), (''slug'', sl)]))))"

definition list_event_types :: "'w net \<Rightarrow> string option \<Rightarrow> 'w operation" where
  "list_event_types net key s =
     (if key_missing key then (Inr (json_dumps (JObj [(''error'', JStr KEY_NOT_SET)])), s)
      else
        let (response, s') = make_cal_request net key ''event-types'' ''GET'' None None s
        in (fbind (py_contains ''error'' response) (\<lambda>is_error.
              if is_error then Inr (json_dumps response)
              else
                fbind (py_get response ''eventTypes'' (JArr [])) (\<lambda>ets.
                fbind (py_iter ets) (\<lambda>xs.
                fbind (map_fault summarize_event_type xs) (\<lambda>summary.
                  Inr (json_dumps (JObj [(''eventTypes'', JArr summary)])))))), s'))"

text \<open>
  A calendar date and its \<open>isoformat()\<close>. The library's
  \<open>datetime.strptime(_, '%Y-%m-%d')\<close> is a parameter of the operation: it gives the
  date, or \<open>None\<close> where it raises \<open>ValueError\<close>.
\<close>

record date =
  year :: nat
  month :: nat
  day :: nat

definition zero_pad :: "nat \<Rightarrow> string \<Rightarrow> string" where
  "zero_pad w s = replicate (w - length s) CHR ''0'' @ s"

definition isoformat :: "date \<Rightarrow> string" where
  "isoformat d =
     zero_pad 4 (show_nat (year d)) @ ''-'' @ zero_pad 2 (show_nat (month d)) @ ''-''
       @ zero_pad 2 (show_nat (day d))"

definition INVALID_DATE :: string where
  "INVALID_DATE =
     ''Invalid date format for start_date_str or end_date_str. Please use YYYY-MM-DD.''"

definition get_available_slots ::
  "'w net \<Rightarrow> string option \<Rightarrow> (string \<Rightarrow> date option) \<Rightarrow> string \<Rightarrow> string \<Rightarrow> string \<Rightarrow>
   'w operation" where
  "get_available_slots net key strptime event_type_slug start_date_str end_date_str s =
     (if key_missing key then (Inr (json_dumps (JObj [(''error'', JStr KEY_NOT_SET)])), s)
      else
        (case strptime start_date_str of
           None \<Rightarrow> (Inr (json_dumps (JObj [(''error'', JStr INVALID_DATE)])), s)
         | Some start_date \<Rightarrow>
             (case strptime end_date_str of
                None \<Rightarrow> (Inr (json_dumps (JObj [(''error'', JStr INVALID_DATE)])), s)
              | Some end_date \<Rightarrow>
                  let (params, s1) =
                        alloc [(''eventType'', JStr event_type_slug),
                               (''startDate'', JStr (isoformat start_date)),
                               (''endDate'', JStr (isoformat end_date))] s;
                      (response, s2) = make_cal_request net key ''slots'' ''GET'' (Some params) None s1
                  in (Inr (json_dumps response), s2))))"

definition book_payload :: "json \<Rightarrow> string \<Rightarrow> string \<Rightarrow> json \<Rightarrow> json \<Rightarrow> json \<Rightarrow> json \<Rightarrow> json" where
  "book_payload event_type_id start_time_iso end_time_iso email name title description =
     JObj [(''eventTypeId'', event_type_id),
           (''start'', JStr start_time_iso),
           (''end'', JStr end_time_iso),
           (''timeZone'', JStr ''America/Los_Angeles''),
           (''responses'', JObj [(''email'', email), (''name'', name), (''metadata'', JObj []),
                                 (''location'', JStr ''integrations:cal'')]),
           (''metadata'', JObj [(''title'', title), (''description'', description)]),
           (''language'', JStr ''en'')]"

definition book_cal_event ::
  "'w net \<Rightarrow> string option \<Rightarrow> json \<Rightarrow> string \<Rightarrow> string \<Rightarrow> json \<Rightarrow> json \<Rightarrow> json \<Rightarrow> json \<Rightarrow>
   'w operation" where
  "book_cal_event net key event_type_id start_time_iso end_time_iso email name title description s =
     (if key_missing key then (Inr (json_dumps (JObj [(''error'', JStr KEY_NOT_SET)])), s)
      else
        let payload = book_payload event_type_id start_time_iso end_time_iso email name title description;
            (response, s') = make_cal_request net key ''bookings'' ''POST'' None (Some payload) s
        in (Inr (json_dumps response), s'))"

text \<open>The inner loop of the filter: the first attendee whose email matches ends it.\<close>

fun attendee_matches :: "(string \<Rightarrow> string) \<Rightarrow> string \<Rightarrow> json list \<Rightarrow> fault + bool" where
  "attendee_matches lower email [] = Inr False"
| "attendee_matches lower email (attendee # rest) =
     fbind (py_get attendee ''email'' (JStr [])) (\<lambda>e.
     fbind (py_lower lower e) (\<lambda>l.
       if l = lower email then Inr True else attendee_matches lower email rest))"

fun filter_bookings :: "(string \<Rightarrow> string) \<Rightarrow> string \<Rightarrow> json list \<Rightarrow> fault + json list" where
  "filter_bookings lower email [] = Inr []"
| "filter_bookings lower email (booking # rest) =
     fbind (py_get booking ''attendees'' (JArr [])) (\<lambda>attendees.
     fbind (py_iter attendees) (\<lambda>as.
     fbind (attendee_matches lower email as) (\<lambda>hit.
     fbind (filter_bookings lower email rest) (\<lambda>kept.
       Inr (if hit then booking # kept else kept)))))"

text \<open>The comprehension \<open>[a.get("email") for a in ... if a.get("email")]\<close>.\<close>

fun attendee_emails :: "json list \<Rightarrow> fault + json list" where
  "attendee_emails [] = Inr []"
| "attendee_emails (a # rest) =
     fbind (py_get a ''email'' JNull) (\<lambda>e.
     fbind (attendee_emails rest) (\<lambda>es.
       Inr (if truthy e then e # es else es)))"

definition summarize_booking :: "json \<Rightarrow> fault + json" where
  "summarize_booking booking =
     fbind (py_get booking ''startTime'' JNull) (\<lambda>start_time.
     fbind (py_get booking ''endTime'' JNull) (\<lambda>end_time.
     fbind (py_get booking ''title'' JNull) (\<lambda>title.
     fbind (py_get booking ''description'' JNull) (\<lambda>description.
     fbind (py_get booking ''id'' JNull) (\<lambda>booking_id.
     fbind (py_get booking ''attendees'' (JArr [])) (\<lambda>attendees.
     fbind (py_iter attendees) (\<lambda>as.
     fbind (attendee_emails as) (\<lambda>emails.
       Inr (JObj [(''id'', booking_id), (''title'', title), (''description'', description),
                  (''startTime'', start_time), (''endTime'', end_time),
                  (''attendees'', JArr emails)])))))))))"

text \<open>
  \<open>if email\<close> holds when an email was given and is not the empty string; otherwise
  the bookings are taken as they came.
\<close>

definition list_cal_events ::
  "'w net \<Rightarrow> string option \<Rightarrow> (string \<Rightarrow> string) \<Rightarrow> string option \<Rightarrow> 'w operation" where
  "list_cal_events net key lower email s =
     (if key_missing key then (Inr (json_dumps (JObj [(''error'', JStr KEY_NOT_SET)])), s)
      else
        let (response, s') = make_cal_request net key ''bookings'' ''GET'' None None s
        in (fbind (py_contains ''error'' response) (\<lambda>is_error.
              if is_error then Inr (json_dumps response)
              else
                fbind (py_get response ''bookings'' (JArr [])) (\<lambda>bookings.
                fbind (py_iter bookings) (\<lambda>bs.
                fbind (case email of
                         None \<Rightarrow> Inr bs
                       | Some e \<Rightarrow> if e \<noteq> [] then filter_bookings lower e bs else Inr bs)
                  (\<lambda>filtered_bookings.
                fbind (map_fault summarize_booking filtered_bookings) (\<lambda>summarized_bookings.
                  Inr (json_dumps (JObj [(''bookings'', JArr summarized_bookings)]))))))), s'))"

definition cancel_cal_event :: "'w net \<Rightarrow> string option \<Rightarrow> int \<Rightarrow> 'w operation" where
  "cancel_cal_event net key booking_id s =
     (if key_missing key then (Inr (json_dumps (JObj [(''error'', JStr KEY_NOT_SET)])), s)
      else
        let (response, s') =
              make_cal_request net key (''bookings/'' @ show_int booking_id) ''DELETE'' None None s
        in (fbind (py_contains ''error'' response) (\<lambda>is_error.
              if is_error then Inr (json_dumps response)
              else Inr (json_dumps (JObj
                     [(''status'', JStr ''success''),
                      (''message'', JStr (''Event with ID '' @ show_int booking_id
                                          @ '' cancelled successfully.''))]))), s'))"

definition create_cal_event_type ::
  "'w net \<Rightarrow> string option \<Rightarrow> json \<Rightarrow> json \<Rightarrow> json \<Rightarrow> json \<Rightarrow> json \<Rightarrow> 'w operation" where
  "create_cal_event_type net key title slug len description hidden s =
     (if key_missing key then (Inr (json_dumps (JObj [(''error'', JStr KEY_NOT_SET_ENV)])), s)
      else
        let payload = JObj [(''title'', title), (''slug'', slug), (''length'', len),
                            (''description'', description), (''hidden'', hidden)];
            (response, s') = make_cal_request net key ''event-types'' ''POST'' None (Some payload) s
        in (Inr (json_dumps response), s'))"

section \<open>Reschedule: fetch, extract, cancel, recreate\<close>

text \<open>\<open>v[k]\<close> for a string key: KeyError when a dictionary lacks it.\<close>

fun py_getitem :: "json \<Rightarrow> string \<Rightarrow> fault + json" where
  "py_getitem (JObj kvs) k = (case map_of kvs k of None \<Rightarrow> Inl KeyError | Some v \<Rightarrow> Inr v)"
| "py_getitem _ k = Inl TypeError"

text \<open>
  The test of the fetch step,
  \<open>"error" in response or not response.get("booking")\<close>, evaluated left to right.
\<close>

definition fetch_failed :: "json \<Rightarrow> fault + bool" where
  "fetch_failed response =
     fbind (py_contains ''error'' response) (\<lambda>is_error.
       if is_error then Inr True
       else fbind (py_get response ''booking'' JNull) (\<lambda>b. Inr (\<not> truthy b)))"

text \<open>
  \<open>details.get("attendees")[0].get(k) if details.get("attendees") else None\<close>.
\<close>

definition first_attendee_field :: "json \<Rightarrow> string \<Rightarrow> fault + json" where
  "first_attendee_field details k =
     fbind (py_get details ''attendees'' JNull) (\<lambda>attendees.
       if truthy attendees
       then fbind (py_index0 attendees) (\<lambda>a. py_get a k JNull)
       else Inr JNull)"

text \<open>
  The extract step. \<open>None\<close> is the missing-information exit; otherwise the event type
  id, the first attendee's email and name, the title and the description.
\<close>

definition extract_details :: "json \<Rightarrow> fault + (json \<times> json \<times> json \<times> json \<times> json) option" where
  "extract_details response =
     fbind (py_getitem response ''booking'') (\<lambda>full_booking_details.
     fbind (py_get full_booking_details ''eventTypeId'' JNull) (\<lambda>event_type_id.
     fbind (first_attendee_field full_booking_details ''email'') (\<lambda>attendee_email.
     fbind (first_attendee_field full_booking_details ''name'') (\<lambda>attendee_name.
       if \<not> truthy event_type_id \<or> \<not> truthy attendee_email \<or> \<not> truthy attendee_name
       then Inr None
       else
         fbind (py_get full_booking_details ''title'' JNull) (\<lambda>title.
         fbind (py_get full_booking_details ''description'' (JStr [])) (\<lambda>description.
           Inr (Some (event_type_id, attendee_email, attendee_name, title, description))))))))"

definition COULD_NOT_FETCH :: "int \<Rightarrow> string" where
  "COULD_NOT_FETCH booking_id =
     ''Could not fetch full details for event with ID '' @ show_int booking_id
       @ '' for rescheduling.''"

definition MISSING_INFO :: string where
  "MISSING_INFO =
     ''Missing crucial information (event type ID, attendee email, or attendee name) from original booking to reschedule.''"

definition CANCEL_FAILED :: "int \<Rightarrow> string \<Rightarrow> string" where
  "CANCEL_FAILED booking_id detail =
     ''Failed to cancel old event with ID '' @ show_int booking_id @ '' during reschedule: ''
       @ detail"

definition REBOOK_FAILED :: "string \<Rightarrow> string" where
  "REBOOK_FAILED detail =
     ''Event cancelled, but failed to book new event during reschedule: '' @ detail
       @ ''. Please try booking a new event manually.''"

text \<open>
  Every operation is the body of a function under the \<open>@tool\<close> decorator, which
  rebinds the function's name to a tool object; the agent runs the body through that
  object. Inside the module the name therefore denotes the tool object, and a call such
  as \<open>cancel_cal_event(booking_id)\<close> is a call of the object, not of the body: the
  object is not callable, the call raises \<open>TypeError\<close>, and the body does not run.
  (Library versions whose tool objects still accept a call take one tool input and
  reject these arguments, so the body does not run there either.)
\<close>

definition call_tool_object :: "'w operation \<Rightarrow> 'w operation" where
  "call_tool_object body s = (Inl TypeError, s)"

text \<open>
  \<open>reschedule_cal_event\<close>, as written: its two nested calls are calls of the tool
  objects \<open>cancel_cal_event\<close> and \<open>book_cal_event\<close>.
\<close>

definition reschedule_cal_event ::
  "'w net \<Rightarrow> string option \<Rightarrow> (json \<Rightarrow> string) \<Rightarrow> int \<Rightarrow> string \<Rightarrow> string \<Rightarrow> 'w operation" where
  "reschedule_cal_event net key repr booking_id new_start_time_iso new_end_time_iso s =
     (if key_missing key then (Inr (json_dumps (JObj [(''error'', JStr KEY_NOT_SET)])), s)
      else
        let (single_booking_response, s1) =
              make_cal_request net key (''bookings/'' @ show_int booking_id) ''GET'' None None s
        in
        (case fetch_failed single_booking_response of
           Inl f \<Rightarrow> (Inl f, s1)
         | Inr True \<Rightarrow>
             (Inr (json_dumps (JObj [(''error'', JStr (COULD_NOT_FETCH booking_id))])), s1)
         | Inr False \<Rightarrow>
             (case extract_details single_booking_response of
                Inl f \<Rightarrow> (Inl f, s1)
              | Inr None \<Rightarrow> (Inr (json_dumps (JObj [(''error'', JStr MISSING_INFO)])), s1)
              | Inr (Some (event_type_id, attendee_email, attendee_name, title, description)) \<Rightarrow>
                  (case call_tool_object (cancel_cal_event net key booking_id) s1 of
                     (Inl f, s2) \<Rightarrow> (Inl f, s2)
                   | (Inr cancel_text, s2) \<Rightarrow>
                       let cancel_status = json_loads cancel_text in
                       (case py_get cancel_status ''status'' JNull of
                          Inl f \<Rightarrow> (Inl f, s2)
                        | Inr status \<Rightarrow>
                            if status \<noteq> JStr ''success''
                            then
                              (fbind (py_get cancel_status ''message'' (JStr ''Unknown error''))
                                 (\<lambda>detail. Inr (json_dumps (JObj
                                    [(''error'',
                                      JStr (CANCEL_FAILED booking_id (py_format repr detail)))]))),
                               s2)
                            else
                              (case call_tool_object
                                      (book_cal_event net key event_type_id new_start_time_iso
                                         new_end_time_iso attendee_email attendee_name title
                                         description) s2 of
                                 (Inl f, s3) \<Rightarrow> (Inl f, s3)
                               | (Inr book_text, s3) \<Rightarrow>
                                   let new_booking_response = json_loads book_text in
                                   (case py_contains ''error'' new_booking_response of
                                      Inl f \<Rightarrow> (Inl f, s3)
                                    | Inr True \<Rightarrow>
                                        (fbind (py_get new_booking_response ''error''
                                                  (JStr ''Unknown error''))
                                           (\<lambda>detail. Inr (json_dumps (JObj
                                              [(''error'',
                                                JStr (REBOOK_FAILED (py_format repr detail)))]))),
                                         s3)
                                    | Inr False \<Rightarrow>
                                        (Inr (json_dumps (JObj
                                           [(''status'', JStr ''success''),
                                            (''message'',
                                             JStr (''Event '' @ show_int booking_id
                                                   @ '' successfully rescheduled.'')),
                                            (''new_booking'', new_booking_response)])),
                                         s3))))))))"

section \<open>Environment instances for concrete evaluation\<close>

text \<open>A remote service that plays back a fixed script of outcomes, one per call.\<close>

fun scripted_net :: "http_outcome list net" where
  "scripted_net [] req = (TransportFailure ''connection refused'', [])"
| "scripted_net (out # rest) req = (out, rest)"

definition start_state :: "http_outcome list \<Rightarrow> http_outcome list state" where
  "start_state script = \<lparr>world = script, calls = [], heap = []\<rparr>"

text \<open>Lower-casing of the ASCII letters, standing in for \<open>str.lower\<close>.\<close>

definition ascii_lower_char :: "char \<Rightarrow> char" where
  "ascii_lower_char c =
     (let n = (of_char c :: nat) in if 65 \<le> n \<and> n \<le> 90 then char_of (n + 32) else c)"

definition ascii_lower :: "string \<Rightarrow> string" where
  "ascii_lower s = map ascii_lower_char s"

text \<open>A stand-in for the interpreter's \<open>str\<close> on values that are not strings.\<close>

fun plain_repr :: "json \<Rightarrow> string" where
  "plain_repr JNull = ''None''"
| "plain_repr (JBool b) = (if b then ''True'' else ''False'')"
| "plain_repr (JInt i) = show_int i"
| "plain_repr _ = ''<value>''"

text \<open>
  A date parser standing in for \<open>strptime\<close> with \<open>%Y-%m-%d\<close>: it accepts the
  ten-character form with a month from 01 to 12 and a day from 01 to 28.
\<close>

definition digit_val :: "char \<Rightarrow> nat option" where
  "digit_val c =
     (let n = (of_char c :: nat) in if 48 \<le> n \<and> n \<le> 57 then Some (n - 48) else None)"

fun digits_val :: "string \<Rightarrow> nat option" where
  "digits_val [] = Some 0"
| "digits_val (c # cs) =
     (case (digit_val c, digits_val cs) of
        (Some d, Some n) \<Rightarrow> Some (d * 10 ^ length cs + n)
      | _ \<Rightarrow> None)"

definition simple_strptime :: "string \<Rightarrow> date option" where
  "simple_strptime s =
     (if length s = 10 \<and> s ! 4 = CHR ''-'' \<and> s ! 7 = CHR ''-''
      then (case (digits_val (take 4 s), digits_val (take 2 (drop 5 s)), digits_val (drop 8 s)) of
              (Some y, Some m, Some d) \<Rightarrow>
                if 1 \<le> y \<and> 1 \<le> m \<and> m \<le> 12 \<and> 1 \<le> d \<and> d \<le> 28
                then Some \<lparr>year = y, month = m, day = d\<rparr> else None
            | _ \<Rightarrow> None)
      else None)"

text \<open>Sample data: a booking as the service returns it, and scripts built on it.\<close>

definition sample_booking :: json where
  "sample_booking =
     JObj [(''id'', JInt 42), (''eventTypeId'', JInt 5),
           (''attendees'', JArr [JObj [(''email'', JStr ''a@b.com''), (''name'', JStr ''Alice'')]]),
           (''title'', JStr ''Sync'')]"

definition fetch_ok :: http_outcome where
  "fetch_ok = Response 200 [] (Inr (JObj [(''booking'', sample_booking)]))"

definition not_found :: http_outcome where
  "not_found = Response 404 ''Not found'' (Inl ''Expecting value'')"

definition fetch_zero_id :: http_outcome where
  "fetch_zero_id =
     Response 200 [] (Inr (JObj [(''booking'',
       JObj [(''id'', JInt 42), (''eventTypeId'', JInt 0),
             (''attendees'', JArr [JObj [(''email'', JStr ''a@b.com''), (''name'', JStr ''Alice'')]]),
             (''title'', JStr ''Sync'')])]))"

definition fetch_booking_number :: http_outcome where
  "fetch_booking_number = Response 200 [] (Inr (JObj [(''booking'', JInt 5)]))"

definition cancelled :: http_outcome where
  "cancelled = Response 200 [] (Inr (JObj [(''message'', JStr ''Booking cancelled'')]))"

definition created :: http_outcome where
  "created = Response 200 [] (Inr (JObj [(''id'', JInt 43), (''title'', JStr ''Sync'')]))"

definition slot_taken :: http_outcome where
  "slot_taken = Response 409 ''Slot taken'' (Inl ''Expecting value'')"

definition sample_listing :: "json list" where
  "sample_listing =
     [JObj [(''id'', JInt 1), (''title'', JStr ''Sync''),
            (''startTime'', JStr ''2024-06-15T10:00:00Z''),
            (''endTime'', JStr ''2024-06-15T11:00:00Z''),
            (''attendees'', JArr [JObj [(''email'', JStr ''x@y.com''), (''name'', JStr ''Xavier'')]])],
      JObj [(''id'', JInt 2), (''title'', JStr ''Review''),
            (''attendees'', JArr [JObj [(''email'', JStr ''a@b.com''), (''name'', JStr ''Alice'')]])]]"

definition listing_ok :: http_outcome where
  "listing_ok = Response 200 [] (Inr (JObj [(''bookings'', JArr sample_listing)]))"

definition listing_null_email :: http_outcome where
  "listing_null_email =
     Response 200 [] (Inr (JObj [(''bookings'',
       JArr [JObj [(''id'', JInt 1),
                   (''attendees'', JArr [JObj [(''email'', JNull), (''name'', JStr ''Bob'')]])]])]))"

text \<open>A state in which the caller holds one query-parameter dictionary, at reference 0.\<close>

definition slots_state :: "http_outcome list state" where
  "slots_state = \<lparr>world = [], calls = [], heap = [[(''eventType'', JStr ''intro'')]]\<rparr>"

section \<open>The list operation as it is described\<close>

text \<open>
  The description of \<open>list_cal_events\<close>, written down on its own to compare the
  operation with: a booking matches an email when some attendee has an email equal to
  it up to case, and a booking is shown as its id, title, description, start time, end
  time and the emails of its attendees (an attendee without one contributes none).
\<close>

definition field :: "json \<Rightarrow> string \<Rightarrow> json \<Rightarrow> json" where
  "field v k d = (case v of JObj kvs \<Rightarrow> (case map_of kvs k of None \<Rightarrow> d | Some x \<Rightarrow> x) | _ \<Rightarrow> d)"

definition attendees_of :: "json \<Rightarrow> json list" where
  "attendees_of b = (case field b ''attendees'' (JArr []) of JArr as \<Rightarrow> as | _ \<Rightarrow> [])"

definition spec_matches :: "(string \<Rightarrow> string) \<Rightarrow> string \<Rightarrow> json \<Rightarrow> bool" where
  "spec_matches lower email b =
     list_ex (\<lambda>a. case field a ''email'' JNull of JStr e \<Rightarrow> lower e = lower email | _ \<Rightarrow> False)
       (attendees_of b)"

definition spec_projection :: "json \<Rightarrow> json" where
  "spec_projection b =
     JObj [(''id'', field b ''id'' JNull),
           (''title'', field b ''title'' JNull),
           (''description'', field b ''description'' JNull),
           (''startTime'', field b ''startTime'' JNull),
           (''endTime'', field b ''endTime'' JNull),
           (''attendees'',
            JArr (filter truthy (map (\<lambda>a. field a ''email'' JNull) (attendees_of b))))]"

text \<open>
  The shape of a booking: an object whose attendees, when present, are a list of
  objects; and, for filtering, attendee emails that are strings where present.
\<close>

fun is_obj :: "json \<Rightarrow> bool" where
  "is_obj (JObj kvs) = True"
| "is_obj _ = False"

definition shaped_booking :: "json \<Rightarrow> bool" where
  "shaped_booking b =
     (is_obj b \<and> (case field b ''attendees'' (JArr []) of JArr as \<Rightarrow> list_all is_obj as | _ \<Rightarrow> False))"

definition string_emails :: "json \<Rightarrow> bool" where
  "string_emails b =
     list_all (\<lambda>a. case field a ''email'' (JStr []) of JStr e \<Rightarrow> True | _ \<Rightarrow> False) (attendees_of b)"

section \<open>Facts about the gateway shared by the results below\<close>

lemma make_cal_request_calls:
  "\<not> key_missing key \<Longrightarrow> make_cal_request net key ep m ps jd s = (resp, s') \<Longrightarrow>
   \<exists>req. calls s' = calls s @ [req] \<and> req_method req = m \<and> req_url req = CAL_API_BASE_URL @ ep
        \<and> req_json req = jd"
  by (auto simp: make_cal_request_def Let_def alloc_def
      split: prod.splits option.splits http_outcome.splits sum.splits if_splits)

lemma map_of_dict_set: "map_of (dict_set d k v) = (map_of d)(k \<mapsto> v)"
  by (induction d k v rule: dict_set.induct) auto

section \<open>Missing credential\<close>

text \<open>
  C5 (as amended). With the credential absent (unset or empty), the gateway and each of
  the seven operations return an \<open>{error: ...}\<close> envelope and leave the state as it
  was, so no network call is logged. The text begins "Cal.com API Key is not set" in
  every case; the gateway and six operations use one text, and
  \<open>create_cal_event_type\<close> uses another.
\<close>

theorem config_error_per_operation:
  assumes "key_missing key"
  shows "make_cal_request net key endpoint method params json_data s
           = (JObj [(''error'', JStr KEY_NOT_SET)], s)
    \<and> list_event_types net key s = (Inr (json_dumps (JObj [(''error'', JStr KEY_NOT_SET)])), s)
    \<and> get_available_slots net key strptime slug a b s
           = (Inr (json_dumps (JObj [(''error'', JStr KEY_NOT_SET)])), s)
    \<and> book_cal_event net key et st en em nm ti de s
           = (Inr (json_dumps (JObj [(''error'', JStr KEY_NOT_SET)])), s)
    \<and> list_cal_events net key lower email s
           = (Inr (json_dumps (JObj [(''error'', JStr KEY_NOT_SET)])), s)
    \<and> cancel_cal_event net key booking_id s
           = (Inr (json_dumps (JObj [(''error'', JStr KEY_NOT_SET)])), s)
    \<and> reschedule_cal_event net key repr booking_id st en s
           = (Inr (json_dumps (JObj [(''error'', JStr KEY_NOT_SET)])), s)
    \<and> create_cal_event_type net key title slug' len descr hidden s
           = (Inr (json_dumps (JObj [(''error'', JStr KEY_NOT_SET_ENV)])), s)
    \<and> take 26 KEY_NOT_SET = ''Cal.com API Key is not set''
    \<and> take 26 KEY_NOT_SET_ENV = ''Cal.com API Key is not set''"
  using assms
  by (simp add: make_cal_request_def list_event_types_def get_available_slots_def
      book_cal_event_def list_cal_events_def cancel_cal_event_def reschedule_cal_event_def
      create_cal_event_type_def KEY_NOT_SET_def KEY_NOT_SET_ENV_def)

theorem config_error_per_operation_witness:
  "key_missing (Some [])
   \<and> cancel_cal_event scripted_net (Some []) 42 (start_state [])
       = (Inr (json_dumps (JObj [(''error'', JStr KEY_NOT_SET)])), start_state [])
   \<and> create_cal_event_type scripted_net (Some []) (JStr ''Intro'') (JStr ''intro'') (JInt 30)
         (JStr []) (JBool False) (start_state [])
       = (Inr (json_dumps (JObj [(''error'', JStr KEY_NOT_SET_ENV)])), start_state [])"
proof -
  have h: "key_missing (Some [])" by simp
  show ?thesis
    using h config_error_per_operation [OF h, where net = scripted_net and s = "start_state []"
        and booking_id = 42 and title = "JStr ''Intro''" and slug' = "JStr ''intro''"
        and len = "JInt 30" and descr = "JStr []" and hidden = "JBool False"]
    by simp
qed

text \<open>
  The claim as stated asks for the same text everywhere: with no credential,
  \<open>create_cal_event_type\<close> and \<open>list_event_types\<close> return different texts.
\<close>

theorem config_error_text_counterexample:
  "fst (create_cal_event_type scripted_net None (JStr ''Intro'') (JStr ''intro'') (JInt 30)
          (JStr []) (JBool False) (start_state []))
   \<noteq> fst (list_event_types scripted_net None (start_state []))"
  by (simp add: create_cal_event_type_def list_event_types_def json_dumps_def
      KEY_NOT_SET_def KEY_NOT_SET_ENV_def)

section \<open>Date validation in the slot query\<close>

text \<open>
  C7. When either date string fails to parse, \<open>get_available_slots\<close> leaves the state
  as it was (no call is made) and, the credential being present, returns the
  validation error, whose text names both \<open>start_date_str\<close> and \<open>end_date_str\<close>.
\<close>

theorem invalid_dates_rejected:
  assumes "strptime start_date_str = None \<or> strptime end_date_str = None"
  shows "snd (get_available_slots net key strptime slug start_date_str end_date_str s) = s
    \<and> (\<not> key_missing key \<longrightarrow>
         fst (get_available_slots net key strptime slug start_date_str end_date_str s)
           = Inr (json_dumps (JObj [(''error'', JStr INVALID_DATE)])))
    \<and> contains_str ''start_date_str'' INVALID_DATE
    \<and> contains_str ''end_date_str'' INVALID_DATE"
proof -
  have names: "contains_str ''start_date_str'' INVALID_DATE \<and> contains_str ''end_date_str'' INVALID_DATE"
    by (simp add: INVALID_DATE_def)
  from assms show ?thesis
    using names by (auto simp: get_available_slots_def split: option.splits)
qed

theorem invalid_dates_rejected_witness:
  "simple_strptime ''bad-date'' = None
   \<and> get_available_slots scripted_net (Some ''k'') simple_strptime ''intro'' ''bad-date''
        ''2024-01-01'' (start_state [])
      = (Inr (json_dumps (JObj [(''error'', JStr INVALID_DATE)])), start_state [])"
proof -
  have h: "simple_strptime ''bad-date'' = None"
    by (simp add: simple_strptime_def)
  have k: "\<not> key_missing (Some ''k'')" by simp
  from invalid_dates_rejected [of simple_strptime "''bad-date''" "''2024-01-01''" scripted_net
      "Some ''k''" "''intro''" "start_state []"] h k
  show ?thesis by (simp add: prod_eq_iff)
qed

lemmas gateway_eval = make_cal_request_def Let_def alloc_def heap_get_def start_state_def
  prod_eq_iff

section \<open>The gateway and the caller's query parameters\<close>

text \<open>
  C9 (as amended). A gateway call changes nothing when the credential is absent. With
  the credential present and no dictionary supplied, every dictionary that existed
  before the call is unchanged. With the credential present and a dictionary supplied
  by the caller, the call stores the credential into that very dictionary under
  \<open>apiKey\<close>: the heap afterwards is the heap before with that one dictionary
  updated, its other entries as they were.
\<close>

theorem make_cal_request_heap_effect:
  assumes "make_cal_request net key ep m ps jd s = (resp, s')"
  shows "(key_missing key \<longrightarrow> s' = s)
    \<and> (\<not> key_missing key \<and> ps = None \<longrightarrow> take (length (heap s)) (heap s') = heap s)
    \<and> (\<not> key_missing key \<and> ps = Some r \<and> r < length (heap s) \<longrightarrow>
         heap s' = (heap s)[r := dict_set (heap s ! r) ''apiKey'' (key_value key)]
         \<and> map_of (heap s' ! r) = (map_of (heap s ! r))(''apiKey'' \<mapsto> key_value key))"
  using assms
  by (auto simp: make_cal_request_def Let_def alloc_def heap_get_def map_of_dict_set
      split: prod.splits option.splits http_outcome.splits sum.splits if_splits)

theorem make_cal_request_heap_effect_witness:
  "\<not> key_missing (Some ''k'') \<and> (0::nat) < length (heap slots_state)
   \<and> heap (snd (make_cal_request scripted_net (Some ''k'') ''slots'' ''GET'' (Some 0) None slots_state))
       = [[(''eventType'', JStr ''intro''), (''apiKey'', JStr ''k'')]]"
proof -
  have k: "\<not> key_missing (Some ''k'')" by simp
  have r: "(0::nat) < length (heap slots_state)" by (simp add: slots_state_def)
  have h: "heap slots_state = [[(''eventType'', JStr ''intro'')]]" by (simp add: slots_state_def)
  from make_cal_request_heap_effect [OF surjective_pairing, where net = scripted_net
      and key = "Some ''k''" and ep = "''slots''" and m = "''GET''" and ps = "Some 0"
      and jd = None and s = slots_state and r = 0] k r
  have "heap (snd (make_cal_request scripted_net (Some ''k'') ''slots'' ''GET'' (Some 0) None slots_state))
      = (heap slots_state)[0 := dict_set (heap slots_state ! 0) ''apiKey'' (key_value (Some ''k''))]"
    by simp
  then show ?thesis using k r by (simp add: h)
qed

text \<open>
  The claim as stated says the caller's dictionary is unchanged after the call: here it
  has gained the \<open>apiKey\<close> entry.
\<close>

theorem params_dictionary_mutated_counterexample:
  "heap (snd (make_cal_request scripted_net (Some ''k'') ''slots'' ''GET'' (Some 0) None slots_state))
     \<noteq> heap slots_state"
  by (simp add: make_cal_request_def Let_def heap_get_def slots_state_def)

section \<open>Reschedule\<close>

lemma fetch_succeeded:
  "''error'' \<notin> fst ` set kvs \<Longrightarrow> map_of kvs ''booking'' = Some (JObj b) \<Longrightarrow> b \<noteq> [] \<Longrightarrow>
   fetch_failed (JObj kvs) = Inr False"
  by (simp add: fetch_failed_def fbind_def)

lemma extract_details_shaped:
  assumes "map_of kvs ''booking'' = Some (JObj b)"
    and "map_of b ''eventTypeId'' = Some et" and "truthy et"
    and "map_of b ''attendees'' = Some (JArr (JObj a # rest))"
    and "map_of a ''email'' = Some em" and "truthy em"
    and "map_of a ''name'' = Some nm" and "truthy nm"
  shows "extract_details (JObj kvs)
           = Inr (Some (et, em, nm,
                        (case map_of b ''title'' of None \<Rightarrow> JNull | Some t \<Rightarrow> t),
                        (case map_of b ''description'' of None \<Rightarrow> JStr [] | Some d \<Rightarrow> d)))"
  using assms by (simp add: extract_details_def first_attendee_field_def fbind_def)

text \<open>
  Past the extract step reschedule always raises: for every fetched booking with an
  event type id and a first attendee with email and name, the call of the tool object
  \<open>cancel_cal_event\<close> ends the operation in the state the fetch left.
\<close>

lemma reschedule_raises_after_extract:
  assumes key: "\<not> key_missing key"
    and fetch: "make_cal_request net key (''bookings/'' @ show_int booking_id) ''GET'' None None s
                  = (JObj kvs, s1)"
    and no_error: "''error'' \<notin> fst ` set kvs"
    and booking: "map_of kvs ''booking'' = Some (JObj b)"
    and event_type: "map_of b ''eventTypeId'' = Some et" "truthy et"
    and attendees: "map_of b ''attendees'' = Some (JArr (JObj a # rest))"
    and email: "map_of a ''email'' = Some em" "truthy em"
    and name: "map_of a ''name'' = Some nm" "truthy nm"
  shows "reschedule_cal_event net key repr booking_id new_start new_end s = (Inl TypeError, s1)"
proof -
  from event_type(1) have ne: "b \<noteq> []" by auto
  have ff: "fetch_failed (JObj kvs) = Inr False"
    by (rule fetch_succeeded [OF no_error booking ne])
  note ex = extract_details_shaped [OF booking event_type attendees email name]
  show ?thesis
    using key fetch ff ex by (simp add: reschedule_cal_event_def call_tool_object_def)
qed

text \<open>
  C3 (as amended). When the fetch returns an error envelope (an object with an
  \<open>error\<close> key), or an object whose \<open>booking\<close> entry is absent or empty (null,
  false, zero, an empty string, list or object), reschedule returns the error "Could
  not fetch full details for event with ID <id> for rescheduling." in the state the
  fetch left: the only call logged is the GET, so neither Cancel nor Book was invoked.
\<close>

theorem reschedule_fetch_failure:
  assumes "\<not> key_missing key"
    and "make_cal_request net key (''bookings/'' @ show_int booking_id) ''GET'' None None s
           = (JObj kvs, s1)"
    and "''error'' \<in> fst ` set kvs
         \<or> (case map_of kvs ''booking'' of None \<Rightarrow> True | Some b \<Rightarrow> \<not> truthy b)"
  shows "reschedule_cal_event net key repr booking_id new_start new_end s
           = (Inr (json_dumps (JObj [(''error'',
                JStr (''Could not fetch full details for event with ID '' @ show_int booking_id
                      @ '' for rescheduling.''))])), s1)
    \<and> (\<exists>g. calls s1 = calls s @ [g] \<and> req_method g = ''GET'')"
proof -
  have ff: "fetch_failed (JObj kvs) = Inr True"
    using assms(3) by (auto simp: fetch_failed_def fbind_def split: option.splits)
  have res: "reschedule_cal_event net key repr booking_id new_start new_end s
           = (Inr (json_dumps (JObj [(''error'', JStr (COULD_NOT_FETCH booking_id))])), s1)"
    using assms(1,2) ff by (simp add: reschedule_cal_event_def)
  from make_cal_request_calls [OF assms(1,2)] res show ?thesis
    unfolding COULD_NOT_FETCH_def by blast
qed

theorem reschedule_fetch_failure_witness:
  "fst (reschedule_cal_event scripted_net (Some ''k'') plain_repr 99 ''2024-06-15T10:00:00Z''
          ''2024-06-15T11:00:00Z'' (start_state [not_found]))
     = Inr (json_dumps (JObj [(''error'',
         JStr (''Could not fetch full details for event with ID '' @ show_int 99
               @ '' for rescheduling.''))]))
   \<and> map req_method (calls (snd (reschedule_cal_event scripted_net (Some ''k'') plain_repr 99
          ''2024-06-15T10:00:00Z'' ''2024-06-15T11:00:00Z'' (start_state [not_found])))) = [''GET'']"
proof -
  let ?s = "start_state [not_found]"
  let ?r = "make_cal_request scripted_net (Some ''k'') (''bookings/'' @ show_int 99) ''GET''
              None None ?s"
  let ?kvs = "[(''error'', JStr (''HTTP error: '' @ show_nat 404 @ '' - Not found''))]"
  have k: "\<not> key_missing (Some ''k'')" by simp
  have f: "?r = (JObj ?kvs, snd ?r)"
    by (simp add: gateway_eval not_found_def)
  have e: "''error'' \<in> fst ` set ?kvs
         \<or> (case map_of ?kvs ''booking'' of None \<Rightarrow> True | Some b \<Rightarrow> \<not> truthy b)"
    by simp
  from reschedule_fetch_failure [OF k f e, of plain_repr "''2024-06-15T10:00:00Z''"
      "''2024-06-15T11:00:00Z''"]
  show ?thesis by (auto simp: start_state_def)
qed

text \<open>
  The claim as stated covers every response without a booking object. When the
  \<open>booking\<close> entry is the number 5, the test \<open>not response.get("booking")\<close> lets it
  pass and the extract step raises \<open>AttributeError\<close> on it: no Could-not-fetch
  envelope is returned (only the GET has been sent).
\<close>

theorem reschedule_fetch_non_object_counterexample:
  "fst (reschedule_cal_event scripted_net (Some ''k'') plain_repr 42 ''2024-06-15T10:00:00Z''
          ''2024-06-15T11:00:00Z'' (start_state [fetch_booking_number]))
     = Inl AttributeError
   \<and> map req_method (calls (snd (reschedule_cal_event scripted_net (Some ''k'') plain_repr 42
          ''2024-06-15T10:00:00Z'' ''2024-06-15T11:00:00Z''
          (start_state [fetch_booking_number])))) = [''GET'']"
  by code_simp

text \<open>
  C10. When the fetched booking has \<open>eventTypeId\<close> equal to the integer 0 (and the
  attendee fields can be read), reschedule returns the missing-information error in
  the state the fetch left: the only call logged is the GET.
\<close>

theorem reschedule_zero_event_type:
  assumes "\<not> key_missing key"
    and "make_cal_request net key (''bookings/'' @ show_int booking_id) ''GET'' None None s
           = (JObj kvs, s1)"
    and "''error'' \<notin> fst ` set kvs"
    and "map_of kvs ''booking'' = Some (JObj b)"
    and "map_of b ''eventTypeId'' = Some (JInt 0)"
    and "first_attendee_field (JObj b) ''email'' = Inr em"
    and "first_attendee_field (JObj b) ''name'' = Inr nm"
  shows "reschedule_cal_event net key repr booking_id new_start new_end s
           = (Inr (json_dumps (JObj [(''error'', JStr MISSING_INFO)])), s1)
    \<and> (\<exists>g. calls s1 = calls s @ [g] \<and> req_method g = ''GET'')"
proof -
  from assms(5) have ne: "b \<noteq> []" by auto
  have ff: "fetch_failed (JObj kvs) = Inr False"
    using assms(3,4) ne by (simp add: fetch_failed_def fbind_def)
  have ex: "extract_details (JObj kvs) = Inr None"
    using assms(4-7) by (simp add: extract_details_def fbind_def)
  have res: "reschedule_cal_event net key repr booking_id new_start new_end s
           = (Inr (json_dumps (JObj [(''error'', JStr MISSING_INFO)])), s1)"
    using assms(1,2) ff ex by (simp add: reschedule_cal_event_def)
  from make_cal_request_calls [OF assms(1,2)] res show ?thesis by blast
qed

theorem reschedule_zero_event_type_witness:
  "fst (reschedule_cal_event scripted_net (Some ''k'') plain_repr 42 ''2024-06-15T10:00:00Z''
          ''2024-06-15T11:00:00Z'' (start_state [fetch_zero_id, cancelled, created]))
     = Inr (json_dumps (JObj [(''error'', JStr MISSING_INFO)]))
   \<and> map req_method (calls (snd (reschedule_cal_event scripted_net (Some ''k'') plain_repr 42
          ''2024-06-15T10:00:00Z'' ''2024-06-15T11:00:00Z''
          (start_state [fetch_zero_id, cancelled, created])))) = [''GET'']"
proof -
  let ?s = "start_state [fetch_zero_id, cancelled, created]"
  let ?r = "make_cal_request scripted_net (Some ''k'') (''bookings/'' @ show_int 42) ''GET''
              None None ?s"
  let ?a = "[(''email'', JStr ''a@b.com''), (''name'', JStr ''Alice'')]"
  let ?b = "[(''id'', JInt 42), (''eventTypeId'', JInt 0), (''attendees'', JArr [JObj ?a]),
             (''title'', JStr ''Sync'')]"
  let ?kvs = "[(''booking'', JObj ?b)]"
  have k: "\<not> key_missing (Some ''k'')" by simp
  have f: "?r = (JObj ?kvs, snd ?r)"
    by (simp add: gateway_eval fetch_zero_id_def)
  have e: "''error'' \<notin> fst ` set ?kvs" by simp
  have b: "map_of ?kvs ''booking'' = Some (JObj ?b)" by simp
  have z: "map_of ?b ''eventTypeId'' = Some (JInt 0)" by simp
  have em: "first_attendee_field (JObj ?b) ''email'' = Inr (JStr ''a@b.com'')"
    by (simp add: first_attendee_field_def fbind_def)
  have nm: "first_attendee_field (JObj ?b) ''name'' = Inr (JStr ''Alice'')"
    by (simp add: first_attendee_field_def fbind_def)
  from reschedule_zero_event_type [OF k f e b z em nm, of plain_repr "''2024-06-15T10:00:00Z''"
      "''2024-06-15T11:00:00Z''"]
  show ?thesis by (auto simp: start_state_def)
qed

text \<open>
  C1. The booking (event type 5, attendee a@b.com / Alice, title "Sync") is fetched, and
  the service would accept both the DELETE and the POST. Reschedule raises
  \<open>TypeError\<close> at its call of the tool object \<open>cancel_cal_event\<close>: only the GET has
  been sent, the answers to DELETE and POST are still unconsumed, and no success
  envelope is returned.
\<close>

theorem reschedule_raises_instead_of_success:
  "fst (reschedule_cal_event scripted_net (Some ''k'') plain_repr 42 ''2024-06-15T10:00:00Z''
          ''2024-06-15T11:00:00Z'' (start_state [fetch_ok, cancelled, created]))
     = Inl TypeError
   \<and> map req_method (calls (snd (reschedule_cal_event scripted_net (Some ''k'') plain_repr 42
          ''2024-06-15T10:00:00Z'' ''2024-06-15T11:00:00Z''
          (start_state [fetch_ok, cancelled, created])))) = [''GET'']
   \<and> world (snd (reschedule_cal_event scripted_net (Some ''k'') plain_repr 42
          ''2024-06-15T10:00:00Z'' ''2024-06-15T11:00:00Z''
          (start_state [fetch_ok, cancelled, created]))) = [cancelled, created]"
  by code_simp

text \<open>
  C2. The booking is fetched, the service would accept the DELETE and answer the POST
  with 409 "Slot taken". Reschedule raises \<open>TypeError\<close> at its call of the tool object
  \<open>cancel_cal_event\<close>: only the GET has been sent, neither Cancel nor Book has run,
  and no manual-recovery envelope is returned.
\<close>

theorem reschedule_raises_instead_of_recovery_error:
  "fst (reschedule_cal_event scripted_net (Some ''k'') plain_repr 42 ''2024-06-15T10:00:00Z''
          ''2024-06-15T11:00:00Z'' (start_state [fetch_ok, cancelled, slot_taken]))
     = Inl TypeError
   \<and> map req_method (calls (snd (reschedule_cal_event scripted_net (Some ''k'') plain_repr 42
          ''2024-06-15T10:00:00Z'' ''2024-06-15T11:00:00Z''
          (start_state [fetch_ok, cancelled, slot_taken])))) = [''GET'']
   \<and> world (snd (reschedule_cal_event scripted_net (Some ''k'') plain_repr 42
          ''2024-06-15T10:00:00Z'' ''2024-06-15T11:00:00Z''
          (start_state [fetch_ok, cancelled, slot_taken]))) = [cancelled, slot_taken]"
  by code_simp

text \<open>
  C4. The booking is fetched, and the service would answer the DELETE with 404 "Not
  found". Reschedule raises \<open>TypeError\<close> at its call of the tool object
  \<open>cancel_cal_event\<close>: only the GET has been sent, and no envelope describing a cancel
  failure is returned. (Book is not invoked.)
\<close>

theorem reschedule_raises_instead_of_cancel_error:
  "fst (reschedule_cal_event scripted_net (Some ''k'') plain_repr 42 ''2024-06-15T10:00:00Z''
          ''2024-06-15T11:00:00Z'' (start_state [fetch_ok, not_found, created]))
     = Inl TypeError
   \<and> map req_method (calls (snd (reschedule_cal_event scripted_net (Some ''k'') plain_repr 42
          ''2024-06-15T10:00:00Z'' ''2024-06-15T11:00:00Z''
          (start_state [fetch_ok, not_found, created])))) = [''GET'']
   \<and> world (snd (reschedule_cal_event scripted_net (Some ''k'') plain_repr 42
          ''2024-06-15T10:00:00Z'' ''2024-06-15T11:00:00Z''
          (start_state [fetch_ok, not_found, created]))) = [not_found, created]"
  by code_simp

section \<open>Listing bookings\<close>

lemma is_obj_iff: "is_obj v \<longleftrightarrow> (\<exists>kvs. v = JObj kvs)"
  by (cases v) simp_all

lemma map_fault_pointwise:
  "(\<And>x. x \<in> set xs \<Longrightarrow> f x = Inr (g x)) \<Longrightarrow> map_fault f xs = Inr (map g xs)"
  by (induction xs) simp_all

lemma attendee_emails_shaped:
  "list_all is_obj as \<Longrightarrow>
   attendee_emails as = Inr (filter truthy (map (\<lambda>a. field a ''email'' JNull) as))"
  by (induction as) (auto simp: is_obj_iff field_def fbind_def split: option.splits)

lemma summarize_booking_shaped:
  assumes "shaped_booking b"
  shows "summarize_booking b = Inr (spec_projection b)"
proof -
  from assms obtain kvs where b: "b = JObj kvs"
    by (auto simp: shaped_booking_def is_obj_iff)
  from assms obtain as where as: "field b ''attendees'' (JArr []) = JArr as" "list_all is_obj as"
    by (auto simp: shaped_booking_def split: json.splits)
  from as(1) have get: "py_get b ''attendees'' (JArr []) = Inr (JArr as)"
    by (simp add: b field_def)
  from as(1) have att: "attendees_of b = as" by (simp add: attendees_of_def)
  show ?thesis
    using get attendee_emails_shaped [OF as(2)]
    by (simp add: summarize_booking_def spec_projection_def fbind_def att)
       (simp add: b field_def)
qed

lemma attendee_matches_shaped:
  assumes "list_all is_obj as"
    and "list_all (\<lambda>a. case field a ''email'' (JStr []) of JStr e \<Rightarrow> True | _ \<Rightarrow> False) as"
    and "lower email \<noteq> lower []"
  shows "attendee_matches lower email as
           = Inr (list_ex (\<lambda>a. case field a ''email'' JNull of JStr e \<Rightarrow> lower e = lower email
                                | _ \<Rightarrow> False) as)"
  using assms
  by (induction as)
     (auto simp: is_obj_iff field_def fbind_def split: option.splits json.splits)

lemma filter_bookings_shaped:
  assumes "\<And>b. b \<in> set bs \<Longrightarrow> shaped_booking b \<and> string_emails b"
    and "lower email \<noteq> lower []"
  shows "filter_bookings lower email bs = Inr (filter (spec_matches lower email) bs)"
  using assms(1)
proof (induction bs)
  case Nil
  then show ?case by simp
next
  case (Cons b bs)
  then have sb: "shaped_booking b" and se: "string_emails b" by simp_all
  from sb obtain kvs where b: "b = JObj kvs"
    by (auto simp: shaped_booking_def is_obj_iff)
  from sb obtain as where as: "field b ''attendees'' (JArr []) = JArr as" "list_all is_obj as"
    by (auto simp: shaped_booking_def split: json.splits)
  from as(1) have get: "py_get b ''attendees'' (JArr []) = Inr (JArr as)"
    by (simp add: b field_def)
  from as(1) have att: "attendees_of b = as" by (simp add: attendees_of_def)
  from se have strs:
    "list_all (\<lambda>a. case field a ''email'' (JStr []) of JStr e \<Rightarrow> True | _ \<Rightarrow> False) as"
    by (simp add: string_emails_def att)
  have hit: "attendee_matches lower email as = Inr (spec_matches lower email b)"
    using attendee_matches_shaped [OF as(2) strs assms(2)] by (simp add: spec_matches_def att)
  have rest: "filter_bookings lower email bs = Inr (filter (spec_matches lower email) bs)"
    using Cons by simp
  show ?case using get hit rest by (simp add: fbind_def)
qed

text \<open>
  C8 (as amended). For a list of bookings of the expected shape, \<open>list_cal_events\<close>
  with a non-empty email returns, in order, exactly the bookings having some attendee
  whose email equals it up to case (attendee emails being strings where present);
  with no email, or the empty string, it returns all bookings. Each returned booking
  is projected to id, title, description, startTime, endTime and the emails of its
  attendees.
\<close>

theorem list_cal_events_filter_project:
  assumes key: "\<not> key_missing key"
    and fetch: "make_cal_request net key ''bookings'' ''GET'' None None s = (JObj kvs, s')"
    and no_error: "''error'' \<notin> fst ` set kvs"
    and bookings: "map_of kvs ''bookings'' = Some (JArr bs)"
    and shaped: "\<forall>b \<in> set bs. shaped_booking b"
    and filtering: "\<forall>e. email = Some e \<and> e \<noteq> [] \<longrightarrow>
                      lower e \<noteq> lower [] \<and> (\<forall>b \<in> set bs. string_emails b)"
  shows "list_cal_events net key lower email s
           = (Inr (json_dumps (JObj [(''bookings'',
                JArr (map spec_projection
                       (case email of
                          None \<Rightarrow> bs
                        | Some e \<Rightarrow> if e = [] then bs else filter (spec_matches lower e) bs)))])),
              s')"
proof -
  let ?kept = "case email of None \<Rightarrow> bs
               | Some e \<Rightarrow> if e = [] then bs else filter (spec_matches lower e) bs"
  have sel: "(case email of None \<Rightarrow> Inr bs
              | Some e \<Rightarrow> if e \<noteq> [] then filter_bookings lower e bs else Inr bs) = Inr ?kept"
  proof (cases email)
    case None
    then show ?thesis by simp
  next
    case (Some e)
    show ?thesis
    proof (cases "e = []")
      case True
      with Some show ?thesis by simp
    next
      case False
      with Some filtering have "lower e \<noteq> lower []" "\<forall>b \<in> set bs. string_emails b" by auto
      with shaped have "filter_bookings lower e bs = Inr (filter (spec_matches lower e) bs)"
        by (intro filter_bookings_shaped) auto
      with Some False show ?thesis by simp
    qed
  qed
  have sub: "set ?kept \<subseteq> set bs" by (auto split: option.splits)
  have proj: "map_fault summarize_booking ?kept = Inr (map spec_projection ?kept)"
    using shaped sub by (intro map_fault_pointwise summarize_booking_shaped) auto
  show ?thesis
    using key fetch no_error bookings sel proj
    by (simp add: list_cal_events_def fbind_def)
qed

theorem list_cal_events_filter_project_witness:
  "fst (list_cal_events scripted_net (Some ''k'') ascii_lower (Some ''X@Y.COM'')
          (start_state [listing_ok]))
     = Inr (json_dumps (JObj [(''bookings'',
         JArr [JObj [(''id'', JInt 1), (''title'', JStr ''Sync''), (''description'', JNull),
                     (''startTime'', JStr ''2024-06-15T10:00:00Z''),
                     (''endTime'', JStr ''2024-06-15T11:00:00Z''),
                     (''attendees'', JArr [JStr ''x@y.com''])]])]))"
proof -
  let ?key = "Some ''k''"
  let ?s = "start_state [listing_ok]"
  let ?r = "make_cal_request scripted_net ?key ''bookings'' ''GET'' None None ?s"
  let ?kvs = "[(''bookings'', JArr sample_listing)]"
  have k: "\<not> key_missing ?key" by simp
  have f: "?r = (JObj ?kvs, snd ?r)"
    by (simp add: gateway_eval listing_ok_def)
  have e: "''error'' \<notin> fst ` set ?kvs" by simp
  have b: "map_of ?kvs ''bookings'' = Some (JArr sample_listing)" by simp
  have sh: "\<forall>b \<in> set sample_listing. shaped_booking b"
    by (simp add: sample_listing_def shaped_booking_def field_def)
  have lo: "ascii_lower ''X@Y.COM'' \<noteq> ascii_lower []"
    by (simp add: ascii_lower_def)
  have se: "\<forall>b \<in> set sample_listing. string_emails b"
    by (simp add: sample_listing_def string_emails_def attendees_of_def field_def)
  have fl: "\<forall>e. Some ''X@Y.COM'' = Some e \<and> e \<noteq> [] \<longrightarrow>
              ascii_lower e \<noteq> ascii_lower [] \<and> (\<forall>b \<in> set sample_listing. string_emails b)"
    using lo se by auto
  have ev: "map spec_projection (filter (spec_matches ascii_lower ''X@Y.COM'') sample_listing)
      = [JObj [(''id'', JInt 1), (''title'', JStr ''Sync''), (''description'', JNull),
               (''startTime'', JStr ''2024-06-15T10:00:00Z''),
               (''endTime'', JStr ''2024-06-15T11:00:00Z''),
               (''attendees'', JArr [JStr ''x@y.com''])]]"
    by code_simp
  from list_cal_events_filter_project [OF k f e b sh fl]
  show ?thesis by (simp add: ev)
qed

text \<open>
  The claim as stated covers every email argument: with the empty string the operation
  returns every booking, although no booking has an attendee matching it.
\<close>

theorem list_cal_events_empty_email_counterexample:
  "fst (list_cal_events scripted_net (Some ''k'') ascii_lower (Some []) (start_state [listing_ok]))
     = Inr (json_dumps (JObj [(''bookings'', JArr (map spec_projection sample_listing))]))
   \<and> filter (spec_matches ascii_lower []) sample_listing = []
   \<and> sample_listing \<noteq> []"
  by code_simp

text \<open>
  C6. A listing in which an attendee's email is null, filtered by an email: the
  operation does not return a JSON text, it raises \<open>AttributeError\<close> (from
  \<open>.lower()\<close> on the null).
\<close>

theorem list_cal_events_null_email_fault:
  "fst (list_cal_events scripted_net (Some ''k'') ascii_lower (Some ''x@y.com'')
          (start_state [listing_null_email]))
     = Inl AttributeError"
  by code_simp

end
